theory Spec2Isabelle
  imports Main
begin

section \<open>Data model\<close>

text \<open>
  The tables of \<^verbatim>\<open>supabase/schema.sql\<close> that the server actions of
  \<^verbatim>\<open>src/app/actions/game.ts\<close> and \<^verbatim>\<open>src/app/actions/lobby.ts\<close> read and write.
  A column with a check constraint \<^verbatim>\<open>in ('home','away')\<close> is a \<open>side option\<close>
  (\<open>None\<close> is SQL null); the role of a play call, which the actions only ever write as
  \<^verbatim>\<open>"offense"\<close> or \<^verbatim>\<open>"defense"\<close>, is a \<open>play_role option\<close>; free text columns
  are strings. Row identifiers (\<^verbatim>\<open>uuid\<close>) are natural numbers. The time stamps
  \<^verbatim>\<open>created_at\<close>, the trivia-mode columns and the surrogate keys of
  \<^verbatim>\<open>plays\<close> and \<^verbatim>\<open>game_events\<close> are never read by the modelled actions and are left out.
  The numeric columns of \<^verbatim>\<open>games\<close>, the sequence of a play call and its ready flag
  have defaults and are only ever written with values, so they are not optional here;
  \<^verbatim>\<open>current_play_seq\<close>, which the actions read with \<^verbatim>\<open>?? 1\<close>, is.
\<close>

datatype side = Home | Away

datatype play_role = Offense | Defense

datatype coin = Heads | Tails

datatype toss_option = Receive | Kick | Defer

type_synonym uuid = nat

record game =
  id_g :: uuid
  code :: string
  status :: string
  phase :: string
  play_subphase :: "string option"
  quarter :: int
  clock_seconds :: int
  play_clock_seconds :: int
  possession_side :: "side option"
  offense_side :: "side option"
  defense_side :: "side option"
  down :: int
  distance :: int
  yard_line :: int
  score_home :: int
  score_away :: int
  lobby_locked :: "bool option"
  host_player_id :: "uuid option"
  toss_result :: "coin option"
  toss_winner_side :: "side option"
  toss_choice :: "toss_option option"
  second_half_kickoff_side :: "side option"
  current_play_seq :: "int option"
  last_play_id :: "uuid option"

record player =
  id_p :: uuid
  game_id_p :: uuid
  display_name :: string
  role_p :: string
  side_p :: "side option"
  ready :: bool

record play_call =
  id_c :: uuid
  game_id_c :: uuid
  player_id_c :: uuid
  side_c :: "side option"
  role_c :: "play_role option"
  play_call :: "string option"
  difficulty :: "string option"
  seq_c :: int
  answer :: "bool option"
  roll :: "int option"
  ready_after_roll :: bool

record play =
  game_id_y :: uuid
  seq_y :: int
  offense_side_y :: "side option"
  defense_side_y :: "side option"
  call_offense :: string
  call_defense :: string
  difficulty_y :: string
  offense_roll :: int
  defense_roll :: int
  offense_correct :: bool
  defense_correct :: bool
  yards_y :: int
  turnover_y :: bool

datatype json = JNull | JBool bool | JNum int | JStr string

record game_event =
  game_id_e :: uuid
  type_e :: string
  payload :: "(string \<times> json) list"

record db =
  games :: "game list"
  players :: "player list"
  play_calls :: "play_call list"
  plays :: "play list"
  game_events :: "game_event list"

text \<open>
  Results of the actions. \<^verbatim>\<open>ActionResult\<close> of the play actions is either
  \<^verbatim>\<open>{ success: true, message?, game? }\<close> or \<^verbatim>\<open>{ success: false, error }\<close>
  (the \<^verbatim>\<open>play\<close> member is read from an insert without a select and is always absent).
\<close>

datatype action_result = Success "string option" "game option" | Failure string

datatype 'a result = Ok 'a | Err string

section \<open>Database primitives\<close>

text \<open>
  A table is the list of its rows, in the order in which a select returns them. A remote
  call is taken to succeed unless a constraint of the schema rejects it.
  \<^verbatim>\<open>.single()\<close> and \<^verbatim>\<open>.maybeSingle()\<close> give a row only when exactly one row matches.
\<close>

definition single_row :: "'a list \<Rightarrow> 'a option" where
  "single_row rows = (case rows of [r] \<Rightarrow> Some r | _ \<Rightarrow> None)"

definition game_by_id :: "db \<Rightarrow> uuid \<Rightarrow> game option" where
  "game_by_id d gameId = single_row (filter (\<lambda>g. id_g g = gameId) (games d))"

definition update_game :: "uuid \<Rightarrow> (game \<Rightarrow> game) \<Rightarrow> db \<Rightarrow> db" where
  "update_game gameId f d =
     d\<lparr>games := map (\<lambda>g. if id_g g = gameId then f g else g) (games d)\<rparr>"

definition player_in_game :: "db \<Rightarrow> uuid \<Rightarrow> uuid \<Rightarrow> player option" where
  "player_in_game d playerId gameId =
     single_row (filter (\<lambda>p. id_p p = playerId \<and> game_id_p p = gameId) (players d))"

definition calls_for :: "db \<Rightarrow> uuid \<Rightarrow> int \<Rightarrow> play_call list" where
  "calls_for d gameId s = filter (\<lambda>c. game_id_c c = gameId \<and> seq_c c = s) (play_calls d)"

definition role_call :: "play_role \<Rightarrow> play_call list \<Rightarrow> play_call option" where
  "role_call r calls = find (\<lambda>c. role_c c = Some r) calls"

definition logGameEvent :: "uuid \<Rightarrow> string \<Rightarrow> (string \<times> json) list \<Rightarrow> db \<Rightarrow> db" where
  "logGameEvent gameId t p d =
     d\<lparr>game_events := game_events d @ [\<lparr>game_id_e = gameId, type_e = t, payload = p\<rparr>]\<rparr>"

text \<open>
  The upsert on \<^verbatim>\<open>play_calls\<close> with \<^verbatim>\<open>onConflict: "game_id,player_id,seq"\<close>: a row
  with the same key has the given columns overwritten, otherwise a new row is inserted
  with the schema's defaults in the other columns.
\<close>

definition same_key :: "uuid \<Rightarrow> uuid \<Rightarrow> int \<Rightarrow> play_call \<Rightarrow> bool" where
  "same_key gameId playerId s c \<longleftrightarrow>
     game_id_c c = gameId \<and> player_id_c c = playerId \<and> seq_c c = s"

definition default_call :: "uuid \<Rightarrow> uuid \<Rightarrow> uuid \<Rightarrow> int \<Rightarrow> play_call" where
  "default_call newId gameId playerId s =
     \<lparr>id_c = newId, game_id_c = gameId, player_id_c = playerId, side_c = None,
      role_c = None, play_call = None, difficulty = None, seq_c = s, answer = None,
      roll = None, ready_after_roll = False\<rparr>"

definition upsert_play_call ::
  "uuid \<Rightarrow> uuid \<Rightarrow> uuid \<Rightarrow> int \<Rightarrow> (play_call \<Rightarrow> play_call) \<Rightarrow> db \<Rightarrow> db" where
  "upsert_play_call newId gameId playerId s cols d =
     d\<lparr>play_calls :=
        (if list_ex (same_key gameId playerId s) (play_calls d)
         then map (\<lambda>c. if same_key gameId playerId s c then cols c else c) (play_calls d)
         else play_calls d @ [cols (default_call newId gameId playerId s)])\<rparr>"

text \<open>The schema's constraint \<^verbatim>\<open>unique_play_call_seq\<close>.\<close>

definition unique_play_call_seq :: "play_call list \<Rightarrow> bool" where
  "unique_play_call_seq rows \<longleftrightarrow>
     distinct (map (\<lambda>c. (game_id_c c, player_id_c c, seq_c c)) rows)"

section \<open>Randomness and strings\<close>

text \<open>
  \<^verbatim>\<open>Math.random()\<close> is the only source of nondeterminism. A run is given a supply of
  draws; \<^verbatim>\<open>randomInt(min, max)\<close> takes the next draw and maps it onto
  \<open>min..max\<close>, so that every value of the range and no other can come out. A coin
  (\<^verbatim>\<open>Math.random() < 0.5\<close>) is the parity of a draw.
\<close>

type_synonym rng = "nat list"

definition randomInt :: "int \<Rightarrow> int \<Rightarrow> rng \<Rightarrow> int \<times> rng" where
  "randomInt lo hi r =
     (case r of [] \<Rightarrow> (lo, []) | u # us \<Rightarrow> (lo + int u mod (hi - lo + 1), us))"

definition flip :: "rng \<Rightarrow> coin" where
  "flip r = (case r of [] \<Rightarrow> Heads | u # us \<Rightarrow> if even u then Heads else Tails)"

definition rollByDifficulty :: "string \<Rightarrow> rng \<Rightarrow> int \<times> rng" where
  "rollByDifficulty diff r =
     (if diff = ''easy'' then randomInt 1 4 r
      else if diff = ''medium'' then
        (case randomInt 1 4 r of (a, r1) \<Rightarrow>
           (case randomInt 1 4 r1 of (b, r2) \<Rightarrow> (a + b, r2)))
      else if diff = ''hard'' then randomInt 1 10 r
      else if diff = ''hail_mary'' then randomInt 1 20 r
      else randomInt 1 4 r)"

text \<open>\<^verbatim>\<open>toLowerCase\<close> and \<^verbatim>\<open>includes\<close> on ASCII text.\<close>

definition lower_char :: "char \<Rightarrow> char" where
  "lower_char c =
     (case map_of (zip ''ABCDEFGHIJKLMNOPQRSTUVWXYZ'' ''abcdefghijklmnopqrstuvwxyz'') c of
        None \<Rightarrow> c | Some l \<Rightarrow> l)"

definition toLowerCase :: "string \<Rightarrow> string" where
  "toLowerCase s = map lower_char s"

fun includes_str :: "string \<Rightarrow> string \<Rightarrow> bool" where
  "includes_str [] sub = (sub = [])"
| "includes_str (c # cs) sub = (take (length sub) (c # cs) = sub \<or> includes_str cs sub)"

text \<open>\<^verbatim>\<open>matchupMod\<close>: the modifier of the offense's call against the defense's.\<close>

definition matchupMod :: "string \<Rightarrow> string \<Rightarrow> bool \<Rightarrow> rng \<Rightarrow> (int \<times> bool) \<times> rng" where
  "matchupMod offense defense offenseCorrect r =
     (let ol = toLowerCase offense;
          dl = toLowerCase defense;
          draw = (\<lambda>lo hi tc. case randomInt lo hi r of (m, r') \<Rightarrow> ((m, tc), r'))
      in
      if includes_str ol ''run'' then
        (if includes_str dl ''run stop'' then draw (- 3) (- 1) False
         else if includes_str dl ''pass'' then draw 2 4 False
         else if includes_str dl ''blitz'' then
           (if offenseCorrect then draw 3 5 False else draw (- 3) (- 1) False)
         else ((0, False), r))
      else if includes_str ol ''screen'' then
        (if includes_str dl ''blitz'' then
           (if offenseCorrect then draw 4 6 False else draw (- 2) 0 False)
         else draw 0 2 False)
      else if includes_str ol ''deep'' \<or> includes_str ol ''hail'' then
        (if includes_str dl ''pass'' then draw (- 5) (- 2) True
         else if includes_str dl ''blitz'' then
           (if offenseCorrect then draw 4 7 True else draw (- 6) (- 3) True)
         else ((0, True), r))
      else if includes_str ol ''pass'' then
        (if includes_str dl ''pass'' then draw (- 3) (- 1) False
         else if includes_str dl ''run'' then draw 2 4 False
         else if includes_str dl ''blitz'' then
           (if offenseCorrect then draw 3 5 False else draw (- 4) (- 2) False)
         else ((0, False), r))
      else if includes_str ol ''trick'' then draw (- 2) 6 False
      else ((0, False), r))"

section \<open>Resolving a play\<close>

text \<open>
  \<^verbatim>\<open>finalizePlayResolution\<close>, in three parts: the yardage of the play from the two
  play-call rows (the dice, the answers and the matchup up to line 797, then the clamp), the new
  game row from the old one and the yardage (yard line, down and distance, turnover on
  downs, touchdown), and the writes.
\<close>

record outcome =
  offensePlay :: string
  defensePlay :: string
  offenseDiff :: string
  dieOffense :: int
  dieDefense :: int
  finalOffenseCorrect :: bool
  finalDefenseCorrect :: bool
  yards :: int

definition rawOutcome :: "play_call \<Rightarrow> play_call \<Rightarrow> rng \<Rightarrow> outcome" where
  "rawOutcome offense defense r0 =
     (let oPlay = (case play_call offense of None \<Rightarrow> ''Run'' | Some s \<Rightarrow> s);
          oDiff = (case difficulty offense of None \<Rightarrow> ''easy'' | Some s \<Rightarrow> s);
          dPlay = (case play_call defense of None \<Rightarrow> ''Pass D'' | Some s \<Rightarrow> s);
          (dieO, r1) = (case roll offense of None \<Rightarrow> rollByDifficulty oDiff r0
                        | Some v \<Rightarrow> (v, r0));
          (dieD, r2) = (case roll defense of None \<Rightarrow> randomInt 1 4 r1 | Some v \<Rightarrow> (v, r1));
          oCorrect = (case answer offense of None \<Rightarrow> False | Some b \<Rightarrow> b);
          dCorrect = (case answer defense of None \<Rightarrow> False | Some b \<Rightarrow> b);
          playLower = toLowerCase oPlay;
          isPassLike = (includes_str playLower ''pass'' \<or> includes_str playLower ''screen''
                        \<or> includes_str playLower ''hail'');
          isHail = includes_str playLower ''hail'';
          rollDiff = dieD - dieO;
          (yards1, r3) =
            (if isHail then
               (if oCorrect then (if dieO \<ge> 17 then randomInt 30 50 r2 else randomInt 12 24 r2)
                else (0, r2))
             else if isPassLike then
               (if oCorrect then (dieO + (if oDiff = ''hard'' then 3 else 1), r2) else (0, r2))
             else if includes_str playLower ''run'' then
               (if oCorrect then (dieO + 1, r2)
                else (case randomInt 1 3 r2 of (a, ra) \<Rightarrow> (- a, ra)))
             else
               (if oCorrect then (dieO, r2)
                else (case randomInt 1 2 r2 of (a, ra) \<Rightarrow> (- a, ra))));
          ((modifier, turnoverChance), r4) = matchupMod oPlay dPlay oCorrect r3;
          appliedMod = (if isPassLike \<and> \<not> oCorrect \<and> \<not> dCorrect then max 0 modifier
                        else modifier);
          yards2 = yards1 + appliedMod;
          (yards3, r5) =
            (if dCorrect then
               (if \<not> oCorrect then
                  (case randomInt 1 3 r4 of (a, ra) \<Rightarrow>
                     if isPassLike \<and> rollDiff > 2
                     then (case randomInt 0 2 ra of (b, rb) \<Rightarrow> (yards2 div 2 - a - b, rb))
                     else (yards2 div 2 - a, ra))
                else (yards2 div 2, r4))
             else if oCorrect then (yards2 + 2, r4)
             else (yards2, r4));
          yards4 =
            (if isHail \<and> \<not> oCorrect \<and> dieO \<le> 3 \<and> turnoverChance
             then (case randomInt 5 12 r5 of (a, ra) \<Rightarrow> - a)
             else yards3)
      in \<lparr>offensePlay = oPlay, defensePlay = dPlay, offenseDiff = oDiff, dieOffense = dieO,
          dieDefense = dieD, finalOffenseCorrect = oCorrect, finalDefenseCorrect = dCorrect,
          yards = yards4\<rparr>)"

text \<open>Line 799: the yardage is clamped.\<close>

definition playOutcome :: "play_call \<Rightarrow> play_call \<Rightarrow> rng \<Rightarrow> outcome" where
  "playOutcome offense defense r =
     (rawOutcome offense defense r)
       \<lparr>yards := max (- 20) (min 60 (yards (rawOutcome offense defense r)))\<rparr>"

text \<open>The new yard line and the yards gained toward the offense's goal (lines 801-802).\<close>

definition newYardLine :: "game \<Rightarrow> int \<Rightarrow> int" where
  "newYardLine g y =
     min 100 (max 0 (yard_line g + (if offense_side g = Some Home then y else - y)))"

definition gained :: "game \<Rightarrow> int \<Rightarrow> int" where
  "gained g y =
     (if offense_side g = Some Home then newYardLine g y - yard_line g
      else yard_line g - newYardLine g y)"

definition turnoverOnDowns :: "game \<Rightarrow> int \<Rightarrow> bool" where
  "turnoverOnDowns g y =
     ((if distance g - gained g y \<le> 0 then 1 else down g + 1) > 4)"

definition touchdown :: "game \<Rightarrow> int \<Rightarrow> bool" where
  "touchdown g y \<longleftrightarrow>
     (offense_side g = Some Home \<and> newYardLine g y \<ge> 100) \<or>
     (offense_side g = Some Away \<and> newYardLine g y \<le> 0)"

text \<open>
  The columns written by the update of lines 856-870, computed from the row \<open>g\<close> that was
  read and the yardage.
\<close>

definition resolvedGame :: "game \<Rightarrow> int \<Rightarrow> game \<Rightarrow> game" where
  "resolvedGame g y row =
     (let nyl = newYardLine g y;
          remaining = distance g - gained g y;
          nextDown1 = (if remaining \<le> 0 then 1 else down g + 1);
          nextDistance1 = (if remaining \<le> 0 then 10 else remaining);
          turnover = (nextDown1 > 4);
          nextDown2 = (if turnover then 1 else nextDown1);
          nextDistance2 = (if turnover then 10 else nextDistance1);
          possession2 = (if turnover then defense_side g else offense_side g);
          offenseSide2 = (if turnover then defense_side g else offense_side g);
          defenseSide2 = (if turnover then offense_side g else defense_side g);
          homeScores = (offense_side g = Some Home \<and> nyl \<ge> 100);
          awayScores = (\<not> homeScores \<and> offense_side g = Some Away \<and> nyl \<le> 0);
          scored = (homeScores \<or> awayScores);
          phase3 = (if scored then ''kickoff'' else phase g)
      in row\<lparr>play_subphase := (if phase3 = ''kickoff'' then None else Some ''play_call''),
             phase := phase3,
             down := (if scored then 1 else nextDown2),
             distance := (if scored then 10 else nextDistance2),
             yard_line := (if scored then 25 else nyl),
             possession_side :=
               (if homeScores then Some Away else if awayScores then Some Home
                else possession2),
             offense_side :=
               (if homeScores then Some Away else if awayScores then Some Home
                else offenseSide2),
             defense_side :=
               (if homeScores then Some Home else if awayScores then Some Away
                else defenseSide2),
             score_home := (if homeScores then score_home g + 7 else score_home g),
             score_away := (if awayScores then score_away g + 7 else score_away g),
             current_play_seq :=
               Some ((case current_play_seq g of None \<Rightarrow> 1 | Some n \<Rightarrow> n) + 1)\<rparr>)"

definition finalizePlayResolution :: "db \<Rightarrow> rng \<Rightarrow> uuid \<Rightarrow> int \<Rightarrow> action_result \<times> db" where
  "finalizePlayResolution d r gameId s =
     (case game_by_id d gameId of
        None \<Rightarrow> (Failure ''Game not found.'', d)
      | Some g \<Rightarrow>
          (case role_call Offense (calls_for d gameId s) of
             None \<Rightarrow> (Failure ''Missing play data.'', d)
           | Some offense \<Rightarrow>
               (case role_call Defense (calls_for d gameId s) of
                  None \<Rightarrow> (Failure ''Missing play data.'', d)
                | Some defense \<Rightarrow>
                    (let out = playOutcome offense defense r;
                         y = yards out;
                         nextSeq = (case current_play_seq g of None \<Rightarrow> 1 | Some n \<Rightarrow> n) + 1;
                         d1 = update_game gameId (resolvedGame g y) d;
                         d2 = d1\<lparr>play_calls :=
                                 filter (\<lambda>c. \<not> (game_id_c c = gameId \<and> seq_c c = nextSeq))
                                   (play_calls d1)\<rparr>;
                         d3 = d2\<lparr>plays := plays d2 @
                                 [\<lparr>game_id_y = gameId, seq_y = s,
                                   offense_side_y = offense_side g,
                                   defense_side_y = defense_side g,
                                   call_offense = offensePlay out,
                                   call_defense = defensePlay out,
                                   difficulty_y = offenseDiff out,
                                   offense_roll = dieOffense out,
                                   defense_roll = dieDefense out,
                                   offense_correct = finalOffenseCorrect out,
                                   defense_correct = finalDefenseCorrect out,
                                   yards_y = gained g y,
                                   turnover_y = turnoverOnDowns g y\<rparr>]\<rparr>;
                         d4 = logGameEvent gameId ''play_resolved''
                                [(''seq'', JNum s), (''yards'', JNum (gained g y)),
                                 (''turnover'', JBool (turnoverOnDowns g y)),
                                 (''touchdown'', JBool (phase (resolvedGame g y g) = ''kickoff'')),
                                 (''call_offense'', JStr (offensePlay out)),
                                 (''call_defense'', JStr (defensePlay out)),
                                 (''offense_correct'', JBool (finalOffenseCorrect out)),
                                 (''defense_correct'', JBool (finalDefenseCorrect out)),
                                 (''offense_roll'', JNum (dieOffense out)),
                                 (''defense_roll'', JNum (dieDefense out))] d3
                     in (Success None (game_by_id d1 gameId), d4)))))"

section \<open>Coin toss, kickoff and drive reset\<close>


definition coin_json :: "coin \<Rightarrow> json" where
  "coin_json c = JStr (case c of Heads \<Rightarrow> ''heads'' | Tails \<Rightarrow> ''tails'')"

definition side_json :: "side option \<Rightarrow> json" where
  "side_json v = (case v of None \<Rightarrow> JNull | Some Home \<Rightarrow> JStr ''home'' | Some Away \<Rightarrow> JStr ''away'')"

definition choice_json :: "toss_option \<Rightarrow> json" where
  "choice_json c =
     JStr (case c of Receive \<Rightarrow> ''receive'' | Kick \<Rightarrow> ''kick'' | Defer \<Rightarrow> ''defer'')"


definition flipCoinAction ::
  "db \<Rightarrow> rng \<Rightarrow> uuid \<Rightarrow> uuid \<Rightarrow> coin \<Rightarrow> (coin \<times> side) result \<times> db" where
  "flipCoinAction d r gameId requesterId awayCall =
     (case player_in_game d requesterId gameId of
        None \<Rightarrow> (Err ''Player not found.'', d)
      | Some p \<Rightarrow>
          if \<not> (side_p p = Some Away \<or> role_p p = ''ref'')
          then (Err ''Only away side (or ref) can call the toss.'', d)
          else
            (let c = flip r;
                 winner = (if c = awayCall then Away else Home);
                 d1 = update_game gameId
                        (\<lambda>g. g\<lparr>toss_result := Some c, toss_winner_side := Some winner,
                                toss_choice := None, phase := ''coin_toss_choice''\<rparr>) d;
                 d2 = logGameEvent gameId ''coin_toss_flipped''
                        [(''coin'', coin_json c), (''winner'', side_json (Some winner)),
                         (''call'', coin_json awayCall)] d1
             in (Ok (c, winner), d2)))"

definition chooseTossOptionAction ::
  "db \<Rightarrow> uuid \<Rightarrow> uuid \<Rightarrow> toss_option \<Rightarrow> unit result \<times> db" where
  "chooseTossOptionAction d gameId requesterId choice =
     (case (case game_by_id d gameId of None \<Rightarrow> None | Some g \<Rightarrow> toss_winner_side g) of
        None \<Rightarrow> (Err ''Toss not resolved yet.'', d)
      | Some winner \<Rightarrow>
          (case player_in_game d requesterId gameId of
             None \<Rightarrow> (Err ''Player not found.'', d)
           | Some p \<Rightarrow>
               if \<not> (role_p p = ''ref'' \<or> side_p p = Some winner)
               then (Err ''Only the toss winner (or ref) can choose.'', d)
               else
                 (let other = (if winner = Home then Away else Home);
                      possession = (if choice = Receive then winner
                                    else if choice = Kick then other else other);
                      offense = possession;
                      defense = (if offense = Home then Away else Home);
                      secondHalf = (if choice = Defer then winner else other);
                      d1 = update_game gameId
                             (\<lambda>g. g\<lparr>toss_choice := Some choice,
                                     possession_side := Some possession,
                                     offense_side := Some offense,
                                     defense_side := Some defense,
                                     second_half_kickoff_side := Some secondHalf,
                                     phase := ''kickoff'', down := 1, distance := 10,
                                     yard_line := 25, clock_seconds := 900,
                                     play_clock_seconds := 40, play_subphase := None,
                                     last_play_id := None\<rparr>) d;
                      d2 = logGameEvent gameId ''coin_toss_choice''
                             [(''choice'', choice_json choice),
                              (''possession_side'', side_json (Some possession)),
                              (''offense_side'', side_json (Some offense)),
                              (''defense_side'', side_json (Some defense)),
                              (''second_half_kickoff_side'', side_json (Some secondHalf))] d1
                  in (Ok (), d2))))"

text \<open>
  The message of the database's error when \<^verbatim>\<open>.single()\<close> does not find exactly one
  row; the actions that pass it on are \<^verbatim>\<open>resolveKickoffTouchbackAction\<close> and
  \<^verbatim>\<open>joinLobbyAction\<close>.
\<close>

definition single_error :: string where
  "single_error = ''JSON object requested, multiple (or no) rows returned''"



section \<open>The stages of a play\<close>

text \<open>
  The side an action is for: \<^verbatim>\<open>forSide\<close> when given, otherwise the role of the
  player's side in the current play.
\<close>

definition targetRole :: "play_role option \<Rightarrow> player \<Rightarrow> game \<Rightarrow> play_role" where
  "targetRole forSide p g =
     (case forSide of Some r \<Rightarrow> r
      | None \<Rightarrow> if side_p p = offense_side g then Offense
                else if side_p p = defense_side g then Defense else Offense)"

definition currentSeq :: "game \<Rightarrow> int" where
  "currentSeq g = (case current_play_seq g of None \<Rightarrow> 1 | Some n \<Rightarrow> n)"

text \<open>
  The guard of \<^verbatim>\<open>submitPlayCallAction\<close> is
  \<^verbatim>\<open>!["play_call", "question", null].includes(game.play_subphase ?? "")\<close>: a null
  subphase is probed as the empty string, so only the two strings of the list can match.
\<close>

definition submitPlayCallAction ::
  "db \<Rightarrow> uuid \<Rightarrow> uuid \<Rightarrow> uuid \<Rightarrow> play_role \<Rightarrow> string \<Rightarrow> string \<Rightarrow> action_result \<times> db" where
  "submitPlayCallAction d newId gameId playerId role playCall diff =
     (case game_by_id d gameId of
        None \<Rightarrow> (Failure ''Game not found.'', d)
      | Some g \<Rightarrow>
          if phase g \<noteq> ''drive'' \<or>
             Some (case play_subphase g of None \<Rightarrow> [] | Some sp \<Rightarrow> sp)
               \<notin> set [Some ''play_call'', Some ''question'', None]
          then (Failure ''Not accepting play calls right now.'', d)
          else
            (case player_in_game d playerId gameId of
               None \<Rightarrow> (Failure ''Player not found.'', d)
             | Some p \<Rightarrow>
                 if side_p p \<noteq> (if role = Offense then offense_side g else defense_side g)
                 then (Failure ''You are not on this side for the current play.'', d)
                 else
                   (let s = currentSeq g;
                        d1 = upsert_play_call newId gameId playerId s
                               (\<lambda>c. c\<lparr>side_c := side_p p, role_c := Some role,
                                       play_call := Some playCall,
                                       difficulty := Some diff\<rparr>) d;
                        calls = calls_for d1 gameId s;
                        offenseDone = list_ex (\<lambda>c. role_c c = Some Offense) calls;
                        defenseDone = list_ex (\<lambda>c. role_c c = Some Defense) calls
                    in
                    if offenseDone \<and> defenseDone then
                      (let d2 = update_game gameId
                                  (\<lambda>row. row\<lparr>play_subphase := Some ''question''\<rparr>) d1;
                           d3 = logGameEvent gameId ''play_calls_locked''
                                  [(''seq'', JNum s), (''offense_ready'', JBool offenseDone),
                                   (''defense_ready'', JBool defenseDone)] d2
                       in (Success None (game_by_id d2 gameId), d3))
                    else
                      (let d2 = logGameEvent gameId ''play_call_submitted''
                                  [(''seq'', JNum s), (''offense_ready'', JBool offenseDone),
                                   (''defense_ready'', JBool defenseDone)] d1;
                           d3 = update_game gameId
                                  (\<lambda>row. row\<lparr>play_subphase := Some ''play_call''\<rparr>) d2
                       in (Success None (game_by_id d3 gameId), d3)))))"

text \<open>
  Reading a column of a row that may be missing, as in
  \<^verbatim>\<open>offenseCall?.play_call ?? "Run"\<close>, \<^verbatim>\<open>offenseCall?.difficulty ?? "easy"\<close>,
  \<^verbatim>\<open>defenseCall?.play_call ?? "Pass D"\<close>, \<^verbatim>\<open>existing?.roll ?? null\<close> and
  \<^verbatim>\<open>existing?.ready_after_roll ?? false\<close>.
\<close>

definition call_or :: "string \<Rightarrow> play_call option \<Rightarrow> string" where
  "call_or dflt c =
     (case c of None \<Rightarrow> dflt
      | Some row \<Rightarrow> (case play_call row of None \<Rightarrow> dflt | Some v \<Rightarrow> v))"

definition difficulty_or :: "string \<Rightarrow> play_call option \<Rightarrow> string" where
  "difficulty_or dflt c =
     (case c of None \<Rightarrow> dflt
      | Some row \<Rightarrow> (case difficulty row of None \<Rightarrow> dflt | Some v \<Rightarrow> v))"


definition roll_of :: "play_call option \<Rightarrow> int option" where
  "roll_of c = (case c of None \<Rightarrow> None | Some row \<Rightarrow> roll row)"


definition answer_of :: "play_call option \<Rightarrow> bool option" where
  "answer_of c = (case c of None \<Rightarrow> None | Some row \<Rightarrow> answer row)"

definition ready_of :: "play_call option \<Rightarrow> bool" where
  "ready_of c = (case c of None \<Rightarrow> False | Some row \<Rightarrow> ready_after_roll row)"

text \<open>
  The columns that the upserts of \<^verbatim>\<open>submitQuestionAnswerAction\<close> and
  \<^verbatim>\<open>submitRollAction\<close> write: side, role, the role's call and difficulty, answer,
  roll and the ready flag.
\<close>

definition stageColumns ::
  "player \<Rightarrow> play_role \<Rightarrow> string \<Rightarrow> string \<Rightarrow> string \<Rightarrow> bool option \<Rightarrow> int option
     \<Rightarrow> bool \<Rightarrow> play_call \<Rightarrow> play_call" where
  "stageColumns p target oPlay oDiff dPlay a rl rdy c =
     c\<lparr>side_c := side_p p, role_c := Some target,
       play_call := Some (if target = Offense then oPlay else dPlay),
       difficulty := Some (if target = Offense then oDiff else ''n/a''),
       answer := a, roll := rl, ready_after_roll := rdy\<rparr>"

definition roll_json :: "int option \<Rightarrow> json" where
  "roll_json v = (case v of None \<Rightarrow> JNull | Some n \<Rightarrow> JNum n)"


definition submitRollAction ::
  "db \<Rightarrow> rng \<Rightarrow> uuid \<Rightarrow> uuid \<Rightarrow> uuid \<Rightarrow> int option \<Rightarrow> play_role option \<Rightarrow> action_result \<times> db" where
  "submitRollAction d r newId gameId playerId manualRoll forSide =
     (case game_by_id d gameId of
        None \<Rightarrow> (Failure ''Game not found.'', d)
      | Some g \<Rightarrow>
          if phase g \<noteq> ''drive'' \<or> play_subphase g \<noteq> Some ''rolls''
          then (Failure ''Not accepting rolls right now.'', d)
          else
            (case player_in_game d playerId gameId of
               None \<Rightarrow> (Failure ''Player not found.'', d)
             | Some p \<Rightarrow>
                 (let s = currentSeq g;
                      calls = calls_for d gameId s;
                      offenseCall = role_call Offense calls;
                      defenseCall = role_call Defense calls;
                      target = targetRole forSide p g;
                      existing = role_call target calls
                  in
                  if roll_of existing \<noteq> None
                  then (Failure ''Roll already submitted for this side.'', d)
                  else
                    (let oDiff = difficulty_or ''easy'' offenseCall;
                         oPlay = call_or ''Run'' offenseCall;
                         dPlay = call_or ''Pass D'' defenseCall;
                         rollVal =
                           (case manualRoll of Some v \<Rightarrow> v
                            | None \<Rightarrow> if target = Offense then fst (rollByDifficulty oDiff r)
                                      else fst (randomInt 1 4 r));
                         d1 = upsert_play_call newId gameId playerId s
                                (stageColumns p target oPlay oDiff dPlay (answer_of existing)
                                   (Some rollVal) (ready_of existing)) d;
                         updatedCalls = calls_for d1 gameId s;
                         offenseRoll = roll_of (role_call Offense updatedCalls);
                         defenseRoll = roll_of (role_call Defense updatedCalls);
                         d2 = logGameEvent gameId ''roll_submitted''
                                [(''seq'', JNum s), (''offense_roll'', roll_json offenseRoll),
                                 (''defense_roll'', roll_json defenseRoll)] d1;
                         d3 = (if offenseRoll \<noteq> None \<and> defenseRoll \<noteq> None
                               then logGameEvent gameId ''rolls_completed''
                                      [(''seq'', JNum s),
                                       (''offense_roll'', roll_json offenseRoll),
                                       (''defense_roll'', roll_json defenseRoll)]
                                      (update_game gameId
                                         (\<lambda>row. row\<lparr>play_subphase := Some ''rolls_done''\<rparr>) d2)
                               else d2)
                     in (Success (Some ''Roll recorded.'') None, d3)))))"


section \<open>Joining a lobby\<close>

definition upper_char :: "char \<Rightarrow> char" where
  "upper_char c =
     (case map_of (zip ''abcdefghijklmnopqrstuvwxyz'' ''ABCDEFGHIJKLMNOPQRSTUVWXYZ'') c of
        None \<Rightarrow> c | Some u \<Rightarrow> u)"

definition toUpperCase :: "string \<Rightarrow> string" where
  "toUpperCase s = map upper_char s"

definition is_space :: "char \<Rightarrow> bool" where
  "is_space c \<longleftrightarrow>
     c \<in> set [CHR '' '', CHR 0x09, CHR 0x0A, CHR 0x0B, CHR 0x0C, CHR 0x0D]"

definition trim :: "string \<Rightarrow> string" where
  "trim s = rev (dropWhile is_space (rev (dropWhile is_space s)))"

text \<open>
  \<^verbatim>\<open>joinLobbyAction\<close>. The insert into \<^verbatim>\<open>players\<close> is rejected by the constraint
  \<^verbatim>\<open>unique_game_display_name\<close> when the game already has a player of that name; the
  new row's identifier is the one the database generates.
\<close>

definition joinLobbyAction ::
  "db \<Rightarrow> uuid \<Rightarrow> string \<Rightarrow> string \<Rightarrow> (uuid \<times> string \<times> uuid) result \<times> db" where
  "joinLobbyAction d newId displayName joinCode =
     (if trim displayName = [] then (Err ''Display name is required.'', d)
      else if trim joinCode = [] then (Err ''Game code is required.'', d)
      else
        (case single_row
                (filter (\<lambda>g. code g = toUpperCase (trim joinCode) \<and> status g = ''lobby_open'')
                   (games d)) of
           None \<Rightarrow> (Err single_error, d)
         | Some g \<Rightarrow>
             if lobby_locked g = Some True then (Err ''Lobby is locked.'', d)
             else if list_ex (\<lambda>p. game_id_p p = id_g g \<and> display_name p = trim displayName)
                       (players d)
             then (Err ''Name already taken in this lobby.'', d)
             else (Ok (id_g g, code g, newId),
                   d\<lparr>players := players d @
                        [\<lparr>id_p = newId, game_id_p = id_g g,
                          display_name = trim displayName, role_p = ''player'',
                          side_p = None, ready = False\<rparr>]\<rparr>)))"

section \<open>Stages of a game and the actions as steps\<close>

text \<open>The phase and play subphase of a game, when the game exists.\<close>

definition stage :: "db \<Rightarrow> uuid \<Rightarrow> (string \<times> string option) option" where
  "stage d gameId = map_option (\<lambda>g. (phase g, play_subphase g)) (game_by_id d gameId)"










section \<open>Example states\<close>

text \<open>
  A game in a drive with a referee and one player a side. The home player has called a
  run and answered correctly with a roll of 2; the away player has called a zone
  defense and answered wrongly with a roll of 1. The play is worth 5 yards, with no
  random draw: 2 + 1 for the run, no matchup modifier, 2 more for the unanswered defense.
\<close>

definition game0 :: game where
  "game0 = \<lparr>id_g = 7, code = ''ABC123'', status = ''in_progress'', phase = ''drive'',
     play_subphase = Some ''rolls_done'', quarter = 1, clock_seconds = 900,
     play_clock_seconds = 40, possession_side = Some Home, offense_side = Some Home,
     defense_side = Some Away, down = 1, distance = 10, yard_line = 25, score_home = 0,
     score_away = 0, lobby_locked = Some False, host_player_id = Some 10,
     toss_result = Some Heads, toss_winner_side = Some Home, toss_choice = Some Receive,
     second_half_kickoff_side = Some Away, current_play_seq = Some 1, last_play_id = None\<rparr>"

definition referee :: player where
  "referee = \<lparr>id_p = 10, game_id_p = 7, display_name = ''Ref'', role_p = ''ref'',
     side_p = None, ready = True\<rparr>"

definition home_player :: player where
  "home_player = \<lparr>id_p = 11, game_id_p = 7, display_name = ''Hal'', role_p = ''player'',
     side_p = Some Home, ready = True\<rparr>"

definition away_player :: player where
  "away_player = \<lparr>id_p = 12, game_id_p = 7, display_name = ''Ann'', role_p = ''player'',
     side_p = Some Away, ready = True\<rparr>"

definition offense_row :: play_call where
  "offense_row = \<lparr>id_c = 21, game_id_c = 7, player_id_c = 11, side_c = Some Home,
     role_c = Some Offense, play_call = Some ''Run'', difficulty = Some ''easy'', seq_c = 1,
     answer = Some True, roll = Some 2, ready_after_roll = True\<rparr>"

definition defense_row :: play_call where
  "defense_row = \<lparr>id_c = 22, game_id_c = 7, player_id_c = 12, side_c = Some Away,
     role_c = Some Defense, play_call = Some ''Zone'', difficulty = Some ''n/a'', seq_c = 1,
     answer = Some False, roll = Some 1, ready_after_roll = True\<rparr>"

definition db_of :: "game \<Rightarrow> play_call list \<Rightarrow> db" where
  "db_of g calls = \<lparr>games = [g], players = [referee, home_player, away_player],
     play_calls = calls, plays = [], game_events = []\<rparr>"

text \<open>The play with both rows in, on a given game row.\<close>

definition db_play :: "game \<Rightarrow> db" where
  "db_play g = db_of g [offense_row, defense_row]"







section \<open>Facts about the database primitives\<close>

lemma single_row_Some: "single_row rows = Some r \<longleftrightarrow> rows = [r]"
  by (auto simp: single_row_def split: list.splits)

lemma single_row_map: "single_row (map f rows) = map_option f (single_row rows)"
  by (auto simp: single_row_def split: list.splits)

lemma game_by_id_id: "game_by_id d gid = Some g \<Longrightarrow> id_g g = gid"
proof -
  assume "game_by_id d gid = Some g"
  then have "filter (\<lambda>x. id_g x = gid) (games d) = [g]"
    by (simp add: game_by_id_def single_row_Some)
  then have "g \<in> set (filter (\<lambda>x. id_g x = gid) (games d))" by simp
  then show ?thesis by simp
qed

text \<open>An update that leaves the key alone changes the addressed row and no other.\<close>

lemma game_by_id_update:
  assumes "\<And>x. id_g (f x) = id_g x"
  shows "game_by_id (update_game gid f d) gid' =
           (if gid' = gid then map_option f (game_by_id d gid) else game_by_id d gid')"
proof -
  let ?h = "\<lambda>x. if id_g x = gid then f x else x"
  have idh: "id_g (?h x) = id_g x" for x using assms by simp
  have "filter (\<lambda>x. id_g x = gid') (map ?h (games d)) =
        map ?h (filter (\<lambda>x. id_g x = gid') (games d))"
    by (simp add: filter_map comp_def idh del: if_split cong: if_cong)
  moreover have "map ?h (filter (\<lambda>x. id_g x = gid') (games d)) =
        (if gid' = gid then map f (filter (\<lambda>x. id_g x = gid') (games d))
         else filter (\<lambda>x. id_g x = gid') (games d))"
    by (auto intro: map_idI)
  ultimately show ?thesis
    by (simp add: game_by_id_def update_game_def single_row_map)
qed

lemma games_logGameEvent [simp]: "games (logGameEvent gid t p d) = games d"
  by (simp add: logGameEvent_def)

lemma players_logGameEvent [simp]: "players (logGameEvent gid t p d) = players d"
  by (simp add: logGameEvent_def)

lemma play_calls_logGameEvent [simp]: "play_calls (logGameEvent gid t p d) = play_calls d"
  by (simp add: logGameEvent_def)

lemma plays_logGameEvent [simp]: "plays (logGameEvent gid t p d) = plays d"
  by (simp add: logGameEvent_def)

lemma players_update_game [simp]: "players (update_game gid f d) = players d"
  by (simp add: update_game_def)

lemma play_calls_update_game [simp]: "play_calls (update_game gid f d) = play_calls d"
  by (simp add: update_game_def)

lemma plays_update_game [simp]: "plays (update_game gid f d) = plays d"
  by (simp add: update_game_def)

lemma games_upsert_play_call [simp]: "games (upsert_play_call n gid pid s cols d) = games d"
  by (simp add: upsert_play_call_def)

lemma players_upsert_play_call [simp]:
  "players (upsert_play_call n gid pid s cols d) = players d"
  by (simp add: upsert_play_call_def)

lemma plays_upsert_play_call [simp]: "plays (upsert_play_call n gid pid s cols d) = plays d"
  by (simp add: upsert_play_call_def)

lemma game_by_id_more [simp]:
  "game_by_id (d\<lparr>players := ps\<rparr>) gid = game_by_id d gid"
  "game_by_id (d\<lparr>play_calls := cs\<rparr>) gid = game_by_id d gid"
  "game_by_id (d\<lparr>plays := ys\<rparr>) gid = game_by_id d gid"
  "game_by_id (d\<lparr>game_events := es\<rparr>) gid = game_by_id d gid"
  "game_by_id (logGameEvent gid' t p d) gid = game_by_id d gid"
  "game_by_id (upsert_play_call n gid' pid s cols d) gid = game_by_id d gid"
  by (simp_all add: game_by_id_def)

lemma player_in_game_more [simp]:
  "player_in_game (d\<lparr>games := gs\<rparr>) pid gid = player_in_game d pid gid"
  "player_in_game (d\<lparr>play_calls := cs\<rparr>) pid gid = player_in_game d pid gid"
  "player_in_game (logGameEvent gid' t p d) pid gid = player_in_game d pid gid"
  "player_in_game (update_game gid' f d) pid gid = player_in_game d pid gid"
  "player_in_game (upsert_play_call n gid' pid' s cols d) pid gid = player_in_game d pid gid"
  by (simp_all add: player_in_game_def)

lemma calls_for_more [simp]:
  "calls_for (d\<lparr>games := gs\<rparr>) gid s = calls_for d gid s"
  "calls_for (logGameEvent gid' t p d) gid s = calls_for d gid s"
  "calls_for (update_game gid' f d) gid s = calls_for d gid s"
  by (simp_all add: calls_for_def)

lemma game_by_id_games: "games d' = games d \<Longrightarrow> game_by_id d' gid = game_by_id d gid"
  by (simp add: game_by_id_def)

lemma player_in_game_players:
  "players d' = players d \<Longrightarrow> player_in_game d' pid gid = player_in_game d pid gid"
  by (simp add: player_in_game_def)

lemma calls_for_play_calls:
  "play_calls d' = play_calls d \<Longrightarrow> calls_for d' gid s = calls_for d gid s"
  by (simp add: calls_for_def)

section \<open>Resolving a play: yardage, downs, possession and score\<close>

lemma id_g_resolvedGame [simp]: "id_g (resolvedGame g y row) = id_g row"
  by (simp add: resolvedGame_def Let_def)

text \<open>
  A play is resolved exactly when the game row and a row of each role for the sequence
  are found; the game row is then the old one with the columns of \<open>resolvedGame\<close>.
\<close>

lemma finalize_result:
  assumes "game_by_id d gid = Some g"
    and "role_call Offense (calls_for d gid s) = Some off"
    and "role_call Defense (calls_for d gid s) = Some def"
  shows "fst (finalizePlayResolution d r gid s) =
           Success None (Some (resolvedGame g (yards (playOutcome off def r)) g))"
  using assms
  by (simp add: finalizePlayResolution_def Let_def game_by_id_update)

lemma finalize_resolved:
  assumes "game_by_id d gid = Some g"
    and "role_call Offense (calls_for d gid s) = Some off"
    and "role_call Defense (calls_for d gid s) = Some def"
  shows "game_by_id (snd (finalizePlayResolution d r gid s)) gid =
           Some (resolvedGame g (yards (playOutcome off def r)) g)"
  using assms
  by (simp add: finalizePlayResolution_def Let_def game_by_id_update)



lemma yards_clamped:
  "- 20 \<le> yards (playOutcome off def r) \<and> yards (playOutcome off def r) \<le> 60"
  by (simp add: playOutcome_def)

text \<open>The example play.\<close>

lemma example_yards: "yards (playOutcome offense_row defense_row []) = 5"
  by (simp add: playOutcome_def rawOutcome_def offense_row_def defense_row_def Let_def
      toLowerCase_def lower_char_def matchupMod_def)

lemma example_game: "id_g g = 7 \<Longrightarrow> game_by_id (db_play g) 7 = Some g"
  by (simp add: game_by_id_def db_play_def db_of_def single_row_def)

lemma example_offense: "role_call Offense (calls_for (db_play g) 7 1) = Some offense_row"
  by (simp add: role_call_def calls_for_def db_play_def db_of_def offense_row_def
      defense_row_def)

lemma example_defense: "role_call Defense (calls_for (db_play g) 7 1) = Some defense_row"
  by (simp add: role_call_def calls_for_def db_play_def db_of_def offense_row_def
      defense_row_def)

lemma example_resolved:
  "id_g g = 7 \<Longrightarrow>
   game_by_id (snd (finalizePlayResolution (db_play g) [] 7 1)) 7 = Some (resolvedGame g 5 g)"
  using finalize_resolved [of "db_play g" 7 g 1 offense_row defense_row "[]"]
  by (simp add: example_game example_offense example_defense example_yards)

text \<open>
  The predicates \<open>touchdown\<close> and \<open>turnoverOnDowns\<close> are the two branches of the
  update: a play is a touchdown exactly when the row written has a new score, and the
  sides are swapped by the down logic exactly on a turnover on downs without touchdown.
\<close>

lemma touchdown_scores:
  "touchdown g y \<longleftrightarrow>
     score_home (resolvedGame g y g) \<noteq> score_home g
     \<or> score_away (resolvedGame g y g) \<noteq> score_away g"
  by (auto simp: touchdown_def resolvedGame_def Let_def)

lemma turnover_sides:
  "\<not> touchdown g y \<Longrightarrow>
   offense_side (resolvedGame g y g)
     = (if turnoverOnDowns g y then defense_side g else offense_side g)"
  by (auto simp: touchdown_def turnoverOnDowns_def resolvedGame_def Let_def)

text \<open>
  C8. After every play that \<^verbatim>\<open>finalizePlayResolution\<close> resolves, whatever the calls,
  difficulties, answers, rolls and random draws are: the yardage computed for the play
  lies between -20 and 60, and the yard line written to the game row lies between 0 and
  100.
\<close>

theorem finalizePlayResolution_yardage_clamped:
  assumes "game_by_id d gameId = Some g"
    and "role_call Offense (calls_for d gameId s) = Some offense"
    and "role_call Defense (calls_for d gameId s) = Some defense"
  shows "- 20 \<le> yards (playOutcome offense defense r)
         \<and> yards (playOutcome offense defense r) \<le> 60
         \<and> (\<exists>g'. game_by_id (snd (finalizePlayResolution d r gameId s)) gameId = Some g'
                \<and> 0 \<le> yard_line g' \<and> yard_line g' \<le> 100)"
proof -
  let ?y = "yards (playOutcome offense defense r)"
  have "0 \<le> yard_line (resolvedGame g ?y g) \<and> yard_line (resolvedGame g ?y g) \<le> 100"
    by (simp add: resolvedGame_def Let_def newYardLine_def)
  with finalize_resolved [OF assms, of r] yards_clamped [of offense defense r]
  show ?thesis by simp
qed

theorem finalizePlayResolution_yardage_clamped_witness:
  "game_by_id (db_play game0) 7 = Some game0
   \<and> role_call Offense (calls_for (db_play game0) 7 1) = Some offense_row
   \<and> role_call Defense (calls_for (db_play game0) 7 1) = Some defense_row
   \<and> yards (playOutcome offense_row defense_row []) = 5
   \<and> (\<exists>g'. game_by_id (snd (finalizePlayResolution (db_play game0) [] 7 1)) 7 = Some g'
          \<and> yard_line g' = 30 \<and> 0 \<le> yard_line g' \<and> yard_line g' \<le> 100)"
proof -
  have g: "game_by_id (db_play game0) 7 = Some game0"
    by (simp add: example_game game0_def)
  have "yard_line (resolvedGame game0 5 game0) = 30"
    by (simp add: resolvedGame_def Let_def newYardLine_def gained_def game0_def)
  with finalizePlayResolution_yardage_clamped [OF g example_offense example_defense, of "[]"]
  show ?thesis
    using g example_resolved [of game0]
    by (simp add: example_offense example_defense example_yards game0_def)
qed

text \<open>
  C2. For every play that \<^verbatim>\<open>finalizePlayResolution\<close> resolves: when the home offense's
  new yard line is at least 100, the home score grows by exactly 7 and the away score
  stays; when the away offense's new yard line is at most 0, the away score grows by
  exactly 7 and the home score stays; in both cases the phase becomes kickoff,
  possession and offense pass to the side scored upon (which stops being the defense),
  and down, distance and yard line are reset to 1, 10 and 25. In every other case both
  scores are unchanged.
\<close>

theorem finalizePlayResolution_touchdown:
  assumes "game_by_id d gameId = Some g"
    and "role_call Offense (calls_for d gameId s) = Some offense"
    and "role_call Defense (calls_for d gameId s) = Some defense"
  shows "\<exists>g'. game_by_id (snd (finalizePlayResolution d r gameId s)) gameId = Some g' \<and>
     (let nyl = newYardLine g (yards (playOutcome offense defense r)) in
      (offense_side g = Some Home \<and> nyl \<ge> 100 \<longrightarrow>
         score_home g' = score_home g + 7 \<and> score_away g' = score_away g
         \<and> phase g' = ''kickoff'' \<and> possession_side g' = Some Away
         \<and> offense_side g' = Some Away \<and> defense_side g' = Some Home
         \<and> down g' = 1 \<and> distance g' = 10 \<and> yard_line g' = 25) \<and>
      (offense_side g = Some Away \<and> nyl \<le> 0 \<longrightarrow>
         score_away g' = score_away g + 7 \<and> score_home g' = score_home g
         \<and> phase g' = ''kickoff'' \<and> possession_side g' = Some Home
         \<and> offense_side g' = Some Home \<and> defense_side g' = Some Away
         \<and> down g' = 1 \<and> distance g' = 10 \<and> yard_line g' = 25) \<and>
      (\<not> (offense_side g = Some Home \<and> nyl \<ge> 100)
         \<and> \<not> (offense_side g = Some Away \<and> nyl \<le> 0) \<longrightarrow>
         score_home g' = score_home g \<and> score_away g' = score_away g))"
  using finalize_resolved [OF assms, of r]
  by (simp add: resolvedGame_def Let_def)

text \<open>
  The three cases on the example play: the home offense from its 95 (touchdown), the
  away offense from the 3 (touchdown), and the home offense from its 25 (no score).
\<close>

theorem finalizePlayResolution_touchdown_witness:
  "(\<exists>g'. game_by_id (snd (finalizePlayResolution (db_play (game0\<lparr>yard_line := 95\<rparr>)) [] 7 1)) 7
            = Some g'
          \<and> score_home g' = 7 \<and> score_away g' = 0 \<and> phase g' = ''kickoff''
          \<and> possession_side g' = Some Away \<and> offense_side g' = Some Away
          \<and> defense_side g' = Some Home \<and> down g' = 1 \<and> distance g' = 10
          \<and> yard_line g' = 25)
   \<and> (\<exists>g'. game_by_id (snd (finalizePlayResolution
              (db_play (game0\<lparr>yard_line := 3, possession_side := Some Away,
                 offense_side := Some Away, defense_side := Some Home\<rparr>)) [] 7 1)) 7 = Some g'
          \<and> score_away g' = 7 \<and> score_home g' = 0 \<and> phase g' = ''kickoff''
          \<and> possession_side g' = Some Home \<and> offense_side g' = Some Home
          \<and> defense_side g' = Some Away \<and> down g' = 1 \<and> distance g' = 10
          \<and> yard_line g' = 25)
   \<and> (\<exists>g'. game_by_id (snd (finalizePlayResolution (db_play game0) [] 7 1)) 7 = Some g'
          \<and> score_home g' = 0 \<and> score_away g' = 0)"
proof -
  let ?home = "game0\<lparr>yard_line := 95\<rparr>"
  let ?away = "game0\<lparr>yard_line := 3, possession_side := Some Away,
                 offense_side := Some Away, defense_side := Some Home\<rparr>"
  have ids: "id_g ?home = 7" "id_g ?away = 7" "id_g game0 = 7"
    by (simp_all add: game0_def)
  have nyl: "newYardLine ?home 5 = 100" "newYardLine ?away 5 = 0" "newYardLine game0 5 = 30"
    by (simp_all add: newYardLine_def game0_def)
  have fields: "offense_side ?home = Some Home" "offense_side ?away = Some Away"
    "offense_side game0 = Some Home" "score_home ?home = 0" "score_away ?home = 0"
    "score_home ?away = 0" "score_away ?away = 0" "score_home game0 = 0"
    "score_away game0 = 0"
    by (simp_all add: game0_def)
  show ?thesis
    using finalizePlayResolution_touchdown
            [OF example_game [OF ids(1)] example_offense example_defense, of "[]"]
          finalizePlayResolution_touchdown
            [OF example_game [OF ids(2)] example_offense example_defense, of "[]"]
          finalizePlayResolution_touchdown
            [OF example_game [OF ids(3)] example_offense example_defense, of "[]"]
    unfolding example_yards Let_def nyl fields
    by simp
qed

text \<open>
  C1, as the code has it. For every play that \<^verbatim>\<open>finalizePlayResolution\<close> resolves:
  when the yards gained toward the offense's goal (measured on the clamped yard line)
  reach the distance, the next down is 1 and the next distance 10. When the play is not
  a touchdown and the yards gained fall short of the distance: the down goes up by one
  and the distance shrinks by the yards gained, unless the down would pass 4, in which
  case possession and offense go to the former defense, the defense becomes the former
  offense, and down and distance are 1 and 10; the yard line written is the new yard
  line of the play in both cases. (On a touchdown down, distance and yard line are
  reset instead, see C2.)
\<close>

theorem finalizePlayResolution_downs:
  assumes "game_by_id d gameId = Some g"
    and "role_call Offense (calls_for d gameId s) = Some offense"
    and "role_call Defense (calls_for d gameId s) = Some defense"
  shows "\<exists>g'. game_by_id (snd (finalizePlayResolution d r gameId s)) gameId = Some g' \<and>
     (let y = yards (playOutcome offense defense r); gain = gained g y in
      (distance g \<le> gain \<longrightarrow> down g' = 1 \<and> distance g' = 10) \<and>
      (\<not> touchdown g y \<longrightarrow>
         (gain < distance g \<and> down g + 1 \<le> 4 \<longrightarrow>
            down g' = down g + 1 \<and> distance g' = distance g - gain) \<and>
         (gain < distance g \<and> down g + 1 > 4 \<longrightarrow>
            down g' = 1 \<and> distance g' = 10 \<and> possession_side g' = defense_side g
            \<and> offense_side g' = defense_side g \<and> defense_side g' = offense_side g) \<and>
         yard_line g' = newYardLine g y))"
  using finalize_resolved [OF assms, of r]
  by (simp add: resolvedGame_def Let_def touchdown_def)

text \<open>
  On the example play (5 yards): with 3 to go a first down; on first and 10 a second
  and 5 at the 30; on fourth and 10 a turnover on downs at the 30.
\<close>

theorem finalizePlayResolution_downs_witness:
  "(\<exists>g'. game_by_id (snd (finalizePlayResolution (db_play (game0\<lparr>distance := 3\<rparr>)) [] 7 1)) 7
            = Some g'
          \<and> down g' = 1 \<and> distance g' = 10 \<and> yard_line g' = 30)
   \<and> (\<exists>g'. game_by_id (snd (finalizePlayResolution (db_play game0) [] 7 1)) 7 = Some g'
          \<and> down g' = 2 \<and> distance g' = 5 \<and> yard_line g' = 30)
   \<and> (\<exists>g'. game_by_id (snd (finalizePlayResolution (db_play (game0\<lparr>down := 4\<rparr>)) [] 7 1)) 7
            = Some g'
          \<and> down g' = 1 \<and> distance g' = 10 \<and> possession_side g' = Some Away
          \<and> offense_side g' = Some Away \<and> defense_side g' = Some Home
          \<and> yard_line g' = 30)"
proof -
  let ?first = "game0\<lparr>distance := 3\<rparr>"
  let ?fourth = "game0\<lparr>down := 4\<rparr>"
  have ids: "id_g ?first = 7" "id_g game0 = 7" "id_g ?fourth = 7"
    by (simp_all add: game0_def)
  have vals: "newYardLine ?first 5 = 30" "newYardLine game0 5 = 30"
    "newYardLine ?fourth 5 = 30" "gained ?first 5 = 5" "gained game0 5 = 5"
    "gained ?fourth 5 = 5"
    by (simp_all add: newYardLine_def gained_def game0_def)
  have no: "\<not> touchdown ?first 5" "\<not> touchdown game0 5" "\<not> touchdown ?fourth 5"
    by (simp_all add: newYardLine_def touchdown_def game0_def)
  have fields: "distance ?first = 3" "distance game0 = 10" "distance ?fourth = 10"
    "down ?first = 1" "down game0 = 1" "down ?fourth = 4"
    "defense_side ?fourth = Some Away" "offense_side ?fourth = Some Home"
    by (simp_all add: game0_def)
  show ?thesis
    using finalizePlayResolution_downs
            [OF example_game [OF ids(1)] example_offense example_defense, of "[]"]
          finalizePlayResolution_downs
            [OF example_game [OF ids(2)] example_offense example_defense, of "[]"]
          finalizePlayResolution_downs
            [OF example_game [OF ids(3)] example_offense example_defense, of "[]"]
    unfolding example_yards Let_def vals fields
    by (simp add: no)
qed

text \<open>
  The claim as the specification words it fails on a touchdown: first and 10 at the
  home offense's 95, the example play gains 5, short of the distance, and the row
  written has down 1, distance 10 and yard line 25, not down 2, distance 5 and yard
  line 100.
\<close>

theorem finalizePlayResolution_downs_counterexample:
  "game_by_id (db_play (game0\<lparr>yard_line := 95\<rparr>)) 7 = Some (game0\<lparr>yard_line := 95\<rparr>)
   \<and> role_call Offense (calls_for (db_play (game0\<lparr>yard_line := 95\<rparr>)) 7 1) = Some offense_row
   \<and> role_call Defense (calls_for (db_play (game0\<lparr>yard_line := 95\<rparr>)) 7 1) = Some defense_row
   \<and> gained (game0\<lparr>yard_line := 95\<rparr>) (yards (playOutcome offense_row defense_row [])) = 5
   \<and> distance (game0\<lparr>yard_line := 95\<rparr>) = 10
   \<and> down (game0\<lparr>yard_line := 95\<rparr>) = 1
   \<and> map_option down
        (game_by_id (snd (finalizePlayResolution (db_play (game0\<lparr>yard_line := 95\<rparr>)) [] 7 1)) 7)
       = Some 1
   \<and> map_option distance
        (game_by_id (snd (finalizePlayResolution (db_play (game0\<lparr>yard_line := 95\<rparr>)) [] 7 1)) 7)
       = Some 10
   \<and> map_option yard_line
        (game_by_id (snd (finalizePlayResolution (db_play (game0\<lparr>yard_line := 95\<rparr>)) [] 7 1)) 7)
       = Some 25"
proof -
  let ?g = "game0\<lparr>yard_line := 95\<rparr>"
  have id: "id_g ?g = 7" by (simp add: game0_def)
  have after: "down (resolvedGame ?g 5 ?g) = 1" "distance (resolvedGame ?g 5 ?g) = 10"
    "yard_line (resolvedGame ?g 5 ?g) = 25"
    by (simp_all add: resolvedGame_def Let_def newYardLine_def gained_def game0_def)
  have before: "gained ?g 5 = 5" "distance ?g = 10" "down ?g = 1"
    by (simp_all add: newYardLine_def gained_def game0_def)
  show ?thesis
    unfolding example_yards example_resolved [OF id] example_game [OF id] example_offense
      example_defense
    using after before by simp
qed




section \<open>Guards of the actions\<close>

text \<open>
  C6. The actions gated by role or side reject an unauthorised caller and leave every
  table as it was: \<^verbatim>\<open>submitPlayCallAction\<close> fails unless the submitting player's side
  is the side assigned to the claimed role (the offense side for offense, the defense
  side for defense); \<^verbatim>\<open>flipCoinAction\<close> fails unless the requester is on the away
  side or has role ref; \<^verbatim>\<open>chooseTossOptionAction\<close> fails unless the requester is on
  the toss winner's side or has role ref.
\<close>

theorem gated_actions_reject_unchanged:
  "(\<not> (\<exists>g p. game_by_id d gameId = Some g \<and> player_in_game d playerId gameId = Some p
           \<and> side_p p = (if role = Offense then offense_side g else defense_side g)) \<longrightarrow>
      (\<exists>e. submitPlayCallAction d newId gameId playerId role playCall diff = (Failure e, d)))
   \<and> (\<not> (\<exists>p. player_in_game d requesterId gameId = Some p
             \<and> (side_p p = Some Away \<or> role_p p = ''ref'')) \<longrightarrow>
      (\<exists>e. flipCoinAction d r gameId requesterId awayCall = (Err e, d)))
   \<and> (\<not> (\<exists>g w p. game_by_id d gameId = Some g \<and> toss_winner_side g = Some w
             \<and> player_in_game d requesterId gameId = Some p
             \<and> (role_p p = ''ref'' \<or> side_p p = Some w)) \<longrightarrow>
      (\<exists>e. chooseTossOptionAction d gameId requesterId choice = (Err e, d)))"
proof (intro conjI impI)
  assume "\<not> (\<exists>g p. game_by_id d gameId = Some g \<and> player_in_game d playerId gameId = Some p
           \<and> side_p p = (if role = Offense then offense_side g else defense_side g))"
  then show "\<exists>e. submitPlayCallAction d newId gameId playerId role playCall diff
                = (Failure e, d)"
    by (auto simp: submitPlayCallAction_def split: option.split)
next
  assume "\<not> (\<exists>p. player_in_game d requesterId gameId = Some p
             \<and> (side_p p = Some Away \<or> role_p p = ''ref''))"
  then show "\<exists>e. flipCoinAction d r gameId requesterId awayCall = (Err e, d)"
    by (auto simp: flipCoinAction_def split: option.split)
next
  assume "\<not> (\<exists>g w p. game_by_id d gameId = Some g \<and> toss_winner_side g = Some w
             \<and> player_in_game d requesterId gameId = Some p
             \<and> (role_p p = ''ref'' \<or> side_p p = Some w))"
  then show "\<exists>e. chooseTossOptionAction d gameId requesterId choice = (Err e, d)"
    by (auto simp: chooseTossOptionAction_def split: option.split)
qed

lemma example_players:
  "player_in_game (db_of g cs) 10 7 = Some referee"
  "player_in_game (db_of g cs) 11 7 = Some home_player"
  "player_in_game (db_of g cs) 12 7 = Some away_player"
  by (simp_all add: player_in_game_def db_of_def single_row_def referee_def home_player_def
      away_player_def)

lemma example_game_of: "id_g g = 7 \<Longrightarrow> game_by_id (db_of g cs) 7 = Some g"
  by (simp add: game_by_id_def db_of_def single_row_def)

text \<open>
  In the example game (home on offense, home won the toss) the away player calls an
  offense play, the home player flips the coin and the away player chooses after the
  toss: each is refused and nothing changes.
\<close>

theorem gated_actions_reject_unchanged_witness:
  "submitPlayCallAction (db_of (game0\<lparr>play_subphase := Some ''play_call''\<rparr>) []) 30 7 12
      Offense ''Run'' ''easy''
     = (Failure ''You are not on this side for the current play.'',
        db_of (game0\<lparr>play_subphase := Some ''play_call''\<rparr>) [])
   \<and> flipCoinAction (db_of game0 []) [] 7 11 Heads
     = (Err ''Only away side (or ref) can call the toss.'', db_of game0 [])
   \<and> chooseTossOptionAction (db_of game0 []) 7 12 Receive
     = (Err ''Only the toss winner (or ref) can choose.'', db_of game0 [])"
proof -
  let ?g = "game0\<lparr>play_subphase := Some ''play_call''\<rparr>"
  have ids: "id_g ?g = 7" "id_g game0 = 7" by (simp_all add: game0_def)
  have fields: "phase ?g = ''drive''" "play_subphase ?g = Some ''play_call''"
    "offense_side ?g = Some Home" "toss_winner_side game0 = Some Home"
    by (simp_all add: game0_def)
  have sides: "side_p home_player = Some Home" "role_p home_player = ''player''"
    "side_p away_player = Some Away" "role_p away_player = ''player''"
    by (simp_all add: home_player_def away_player_def)
  show ?thesis
    using gated_actions_reject_unchanged
            [of "db_of ?g []" 7 12 Offense 30 "''Run''" "''easy''" 11 "[]" Heads Receive]
          gated_actions_reject_unchanged
            [of "db_of game0 []" 7 12 Offense 30 "''Run''" "''easy''" 11 "[]" Heads Receive]
          gated_actions_reject_unchanged
            [of "db_of game0 []" 7 12 Offense 30 "''Run''" "''easy''" 12 "[]" Heads Receive]
    by (simp add: submitPlayCallAction_def flipCoinAction_def chooseTossOptionAction_def
        example_players example_game_of [OF ids(1)] example_game_of [OF ids(2)] fields sides)
qed

text \<open>
  C10, as the code has it. When the row that \<^verbatim>\<open>submitRollAction\<close> finds for the
  target role already holds a roll, the action fails and changes no row, so the roll
  stays: with the error \<^verbatim>\<open>Roll already submitted for this side.\<close> while the game is in
  the rolls stage of a drive, and with \<^verbatim>\<open>Not accepting rolls right now.\<close> in any other
  phase or stage.
\<close>

theorem submitRollAction_roll_kept:
  assumes "game_by_id d gameId = Some g"
    and "player_in_game d playerId gameId = Some p"
    and "role_call (targetRole forSide p g) (calls_for d gameId (currentSeq g)) = Some row"
    and "roll row = Some v"
  shows "submitRollAction d r newId gameId playerId manualRoll forSide =
           (Failure (if phase g = ''drive'' \<and> play_subphase g = Some ''rolls''
                     then ''Roll already submitted for this side.''
                     else ''Not accepting rolls right now.''), d)"
  using assms by (simp add: submitRollAction_def Let_def roll_of_def)

lemma example_target: "targetRole None home_player game0 = Offense"
  by (simp add: targetRole_def home_player_def game0_def)

text \<open>
  In the rolls stage of the example play the home player, whose roll of 2 is recorded,
  rolls again.
\<close>

theorem submitRollAction_roll_kept_witness:
  "game_by_id (db_play (game0\<lparr>play_subphase := Some ''rolls''\<rparr>)) 7
     = Some (game0\<lparr>play_subphase := Some ''rolls''\<rparr>)
   \<and> player_in_game (db_play (game0\<lparr>play_subphase := Some ''rolls''\<rparr>)) 11 7 = Some home_player
   \<and> role_call (targetRole None home_player (game0\<lparr>play_subphase := Some ''rolls''\<rparr>))
        (calls_for (db_play (game0\<lparr>play_subphase := Some ''rolls''\<rparr>)) 7
           (currentSeq (game0\<lparr>play_subphase := Some ''rolls''\<rparr>))) = Some offense_row
   \<and> roll offense_row = Some 2
   \<and> submitRollAction (db_play (game0\<lparr>play_subphase := Some ''rolls''\<rparr>)) [] 30 7 11 None None
     = (Failure ''Roll already submitted for this side.'',
        db_play (game0\<lparr>play_subphase := Some ''rolls''\<rparr>))"
proof -
  let ?g = "game0\<lparr>play_subphase := Some ''rolls''\<rparr>"
  have id: "id_g ?g = 7" by (simp add: game0_def)
  have g: "game_by_id (db_play ?g) 7 = Some ?g" by (rule example_game [OF id])
  have p: "player_in_game (db_play ?g) 11 7 = Some home_player"
    by (simp add: db_play_def example_players)
  have t: "targetRole None home_player ?g = Offense"
    by (simp add: targetRole_def home_player_def game0_def)
  have s: "currentSeq ?g = 1" by (simp add: currentSeq_def game0_def)
  have c: "role_call (targetRole None home_player ?g) (calls_for (db_play ?g) 7 (currentSeq ?g))
             = Some offense_row"
    by (simp add: t s example_offense)
  have v: "roll offense_row = Some 2" by (simp add: offense_row_def)
  have f: "phase ?g = ''drive''" "play_subphase ?g = Some ''rolls''"
    by (simp_all add: game0_def)
  show ?thesis
    using submitRollAction_roll_kept [OF g p c v, of "[]" 30 None] g p c v
    by (simp add: f)
qed

text \<open>
  The claim as the specification words it fails once both rolls are in: the example
  play is in the stage \<^verbatim>\<open>rolls_done\<close>, the home player's roll of 2 is recorded, and
  a further roll by the home player is refused with another error.
\<close>

theorem submitRollAction_roll_kept_counterexample:
  "game_by_id (db_play game0) 7 = Some game0
   \<and> player_in_game (db_play game0) 11 7 = Some home_player
   \<and> role_call (targetRole None home_player game0)
        (calls_for (db_play game0) 7 (currentSeq game0)) = Some offense_row
   \<and> roll offense_row = Some 2
   \<and> submitRollAction (db_play game0) [] 30 7 11 None None
     = (Failure ''Not accepting rolls right now.'', db_play game0)
   \<and> fst (submitRollAction (db_play game0) [] 30 7 11 None None)
     \<noteq> Failure ''Roll already submitted for this side.''"
proof -
  have id: "id_g game0 = 7" by (simp add: game0_def)
  have g: "game_by_id (db_play game0) 7 = Some game0" by (rule example_game [OF id])
  have p: "player_in_game (db_play game0) 11 7 = Some home_player"
    by (simp add: db_play_def example_players)
  have s: "currentSeq game0 = 1" by (simp add: currentSeq_def game0_def)
  have c: "role_call (targetRole None home_player game0)
             (calls_for (db_play game0) 7 (currentSeq game0)) = Some offense_row"
    by (simp add: example_target s example_offense)
  have v: "roll offense_row = Some 2" by (simp add: offense_row_def)
  have f: "play_subphase game0 = Some ''rolls_done''" by (simp add: game0_def)
  have "submitRollAction (db_play game0) [] 30 7 11 None None
          = (Failure ''Not accepting rolls right now.'', db_play game0)"
    by (simp add: submitRollAction_def g f)
  with g p c v show ?thesis by simp
qed

text \<open>
  C9. \<^verbatim>\<open>joinLobbyAction\<close> returns an error and inserts no row (it changes no table at
  all) whenever no game with the given code, trimmed and in upper case, has status
  \<^verbatim>\<open>lobby_open\<close> and is not locked; a player row is inserted only for such a game, and
  it is a row of that game.
\<close>

theorem joinLobbyAction_open_unlocked_only:
  "(\<not> (\<exists>g \<in> set (games d). code g = toUpperCase (trim joinCode)
           \<and> status g = ''lobby_open'' \<and> lobby_locked g \<noteq> Some True) \<longrightarrow>
      (\<exists>e. joinLobbyAction d newId displayName joinCode = (Err e, d)))
   \<and> (players (snd (joinLobbyAction d newId displayName joinCode)) \<noteq> players d \<longrightarrow>
      (\<exists>g \<in> set (games d). code g = toUpperCase (trim joinCode)
           \<and> status g = ''lobby_open'' \<and> lobby_locked g \<noteq> Some True
           \<and> players (snd (joinLobbyAction d newId displayName joinCode)) =
               players d @ [\<lparr>id_p = newId, game_id_p = id_g g,
                             display_name = trim displayName, role_p = ''player'',
                             side_p = None, ready = False\<rparr>]))"
proof -
  let ?P = "\<lambda>g. code g = toUpperCase (trim joinCode) \<and> status g = ''lobby_open''"
  have found: "g \<in> set (games d) \<and> ?P g" if "single_row (filter ?P (games d)) = Some g" for g
  proof -
    from that have "filter ?P (games d) = [g]" by (simp add: single_row_Some)
    then have "g \<in> set (filter ?P (games d))" by simp
    then show ?thesis by simp
  qed
  show ?thesis
  proof (intro conjI impI)
    assume none: "\<not> (\<exists>g \<in> set (games d). code g = toUpperCase (trim joinCode)
           \<and> status g = ''lobby_open'' \<and> lobby_locked g \<noteq> Some True)"
    show "\<exists>e. joinLobbyAction d newId displayName joinCode = (Err e, d)"
    proof (cases "single_row (filter ?P (games d))")
      case None
      then show ?thesis by (simp add: joinLobbyAction_def)
    next
      case (Some g)
      with found [OF Some] none have "lobby_locked g = Some True" by blast
      with Some show ?thesis by (simp add: joinLobbyAction_def)
    qed
  next
    assume changed: "players (snd (joinLobbyAction d newId displayName joinCode)) \<noteq> players d"
    show "\<exists>g \<in> set (games d). code g = toUpperCase (trim joinCode)
           \<and> status g = ''lobby_open'' \<and> lobby_locked g \<noteq> Some True
           \<and> players (snd (joinLobbyAction d newId displayName joinCode)) =
               players d @ [\<lparr>id_p = newId, game_id_p = id_g g,
                             display_name = trim displayName, role_p = ''player'',
                             side_p = None, ready = False\<rparr>]"
    proof (cases "single_row (filter ?P (games d))")
      case None
      with changed show ?thesis by (simp add: joinLobbyAction_def split: if_splits)
    next
      case (Some g)
      with changed have "lobby_locked g \<noteq> Some True
          \<and> players (snd (joinLobbyAction d newId displayName joinCode)) =
               players d @ [\<lparr>id_p = newId, game_id_p = id_g g,
                             display_name = trim displayName, role_p = ''player'',
                             side_p = None, ready = False\<rparr>]"
        by (simp add: joinLobbyAction_def split: if_splits)
      with found [OF Some] show ?thesis by blast
    qed
  qed
qed

lemma example_code: "toUpperCase (trim '' abc123 '') = ''ABC123''"
  by (simp add: toUpperCase_def trim_def is_space_def upper_char_def)

text \<open>
  Joining the example game with the code typed in lower case between blanks: refused
  while the game is in progress and while the lobby is locked, accepted in the open
  lobby, where the row of the new player is appended.
\<close>

theorem joinLobbyAction_open_unlocked_only_witness:
  "joinLobbyAction (db_of game0 []) 30 ''Zoe'' '' abc123 ''
     = (Err single_error, db_of game0 [])
   \<and> joinLobbyAction (db_of (game0\<lparr>status := ''lobby_open'', lobby_locked := Some True\<rparr>) [])
        30 ''Zoe'' '' abc123 ''
     = (Err ''Lobby is locked.'',
        db_of (game0\<lparr>status := ''lobby_open'', lobby_locked := Some True\<rparr>) [])
   \<and> players (snd (joinLobbyAction (db_of (game0\<lparr>status := ''lobby_open''\<rparr>) [])
        30 ''Zoe'' '' abc123 ''))
     = [referee, home_player, away_player,
        \<lparr>id_p = 30, game_id_p = 7, display_name = ''Zoe'', role_p = ''player'',
         side_p = None, ready = False\<rparr>]"
proof -
  have name: "trim ''Zoe'' = ''Zoe''" by (simp add: trim_def is_space_def)
  have blank: "trim '' abc123 '' \<noteq> []" by (simp add: trim_def is_space_def)
  have names: "display_name referee \<noteq> ''Zoe''" "display_name home_player \<noteq> ''Zoe''"
    "display_name away_player \<noteq> ''Zoe''"
    by (simp_all add: referee_def home_player_def away_player_def)
  show ?thesis
    using joinLobbyAction_open_unlocked_only [of "db_of game0 []" "'' abc123 ''" 30 "''Zoe''"]
      joinLobbyAction_open_unlocked_only
        [of "db_of (game0\<lparr>status := ''lobby_open'', lobby_locked := Some True\<rparr>) []"
            "'' abc123 ''" 30 "''Zoe''"]
      joinLobbyAction_open_unlocked_only
        [of "db_of (game0\<lparr>status := ''lobby_open''\<rparr>) []" "'' abc123 ''" 30 "''Zoe''"]
    by (simp add: joinLobbyAction_def example_code name blank names db_of_def game0_def
        single_row_def)
qed

section \<open>Submitting a play call\<close>

text \<open>
  An upsert whose columns are constants, repeated on its own result, changes nothing
  (the second one finds the row of the first).
\<close>

lemma upsert_play_call_twice:
  assumes idem: "\<And>c. cols (cols c) = cols c"
    and key: "\<And>c. same_key gid pid s (cols c) = same_key gid pid s c"
    and same: "play_calls d' = play_calls (upsert_play_call n gid pid s cols d)"
  shows "play_calls (upsert_play_call n' gid pid s cols d') = play_calls d'"
proof -
  let ?k = "same_key gid pid s"
  define h where "h = (\<lambda>c. if ?k c then cols c else c)"
  have hh: "h (h c) = h c" for c by (simp add: h_def idem key)
  have kh: "?k (h c) = ?k c" for c by (simp add: h_def key)
  have up: "play_calls (upsert_play_call m gid pid s cols e) =
              (if list_ex ?k (play_calls e) then map h (play_calls e)
               else play_calls e @ [cols (default_call m gid pid s)])" for m e
    by (simp add: upsert_play_call_def h_def)
  show ?thesis
  proof (cases "list_ex ?k (play_calls d)")
    case True
    then have d': "play_calls d' = map h (play_calls d)"
      using same by (simp add: up)
    from True obtain x where "x \<in> set (play_calls d)" "?k x" by (auto simp: list_ex_iff)
    then have "h x \<in> set (map h (play_calls d))" "?k (h x)" by (simp_all add: kh)
    then have "list_ex ?k (map h (play_calls d))" unfolding list_ex_iff by blast
    moreover have "map h (map h (play_calls d)) = map h (play_calls d)"
      by (simp add: hh)
    ultimately show ?thesis by (simp add: up d')
  next
    case False
    then have d': "play_calls d' = play_calls d @ [cols (default_call n gid pid s)]"
      using same by (simp add: up)
    have k0: "?k (cols (default_call n gid pid s))"
      by (simp add: key) (simp add: same_key_def default_call_def)
    have "map h (play_calls d) = play_calls d"
      using False by (intro map_idI) (auto simp: list_ex_iff h_def)
    with k0 show ?thesis by (simp add: up d' h_def idem)
  qed
qed

text \<open>Under the unique constraint an upsert leaves exactly one row with its key.\<close>

lemma distinct_key_filter:
  "distinct (map f rows) \<Longrightarrow> x \<in> set rows \<Longrightarrow> filter (\<lambda>c. f c = f x) rows = [x]"
proof (induction rows)
  case Nil
  then show ?case by simp
next
  case (Cons a rows)
  from Cons.prems(1) have fresh: "f a \<notin> f ` set rows" and rest: "distinct (map f rows)"
    by simp_all
  show ?case
  proof (cases "x = a")
    case True
    have "\<forall>c \<in> set rows. f c \<noteq> f a" using fresh by (metis imageI)
    then have "filter (\<lambda>c. f c = f a) rows = []"
      by (simp add: filter_empty_conv)
    with True show ?thesis by simp
  next
    case False
    with Cons.prems(2) have x: "x \<in> set rows" by simp
    then have "f x \<in> f ` set rows" by (rule imageI)
    with fresh have "f a \<noteq> f x" by metis
    with Cons.IH [OF rest x] show ?thesis by simp
  qed
qed

lemma upsert_play_call_unique:
  assumes uniq: "unique_play_call_seq (play_calls d)"
    and keep: "\<And>c. game_id_c (cols c) = game_id_c c \<and> player_id_c (cols c) = player_id_c c
                 \<and> seq_c (cols c) = seq_c c"
  shows "unique_play_call_seq (play_calls (upsert_play_call n gid pid s cols d))"
    and "\<exists>c. filter (same_key gid pid s) (play_calls (upsert_play_call n gid pid s cols d))
              = [cols c]"
proof -
  let ?k = "same_key gid pid s"
  let ?f = "\<lambda>c. (game_id_c c, player_id_c c, seq_c c)"
  define h where "h = (\<lambda>c. if ?k c then cols c else c)"
  have fh: "?f (h c) = ?f c" for c by (simp add: h_def keep)
  have kf: "?k c \<longleftrightarrow> ?f c = (gid, pid, s)" for c by (auto simp: same_key_def)
  have kh: "?k (h c) = ?k c" for c unfolding kf fh ..
  have up: "play_calls (upsert_play_call n gid pid s cols d) =
              (if list_ex ?k (play_calls d) then map h (play_calls d)
               else play_calls d @ [cols (default_call n gid pid s)])"
    by (simp add: upsert_play_call_def h_def)
  have maph: "map ?f (map h rows) = map ?f rows" for rows
    using fh by (induction rows) auto
  have k0: "?f (cols (default_call n gid pid s)) = (gid, pid, s)"
    by (simp add: keep) (simp add: default_call_def)
  show "unique_play_call_seq (play_calls (upsert_play_call n gid pid s cols d))"
  proof (cases "list_ex ?k (play_calls d)")
    case True
    then have "play_calls (upsert_play_call n gid pid s cols d) = map h (play_calls d)"
      by (simp add: up)
    then show ?thesis using uniq
      unfolding unique_play_call_seq_def by (simp only: maph)
  next
    case False
    then have "(gid, pid, s) \<notin> ?f ` set (play_calls d)"
      by (auto simp: list_ex_iff same_key_def)
    with False uniq k0 show ?thesis
      unfolding up unique_play_call_seq_def by simp
  qed
  show "\<exists>c. filter ?k (play_calls (upsert_play_call n gid pid s cols d)) = [cols c]"
  proof (cases "list_ex ?k (play_calls d)")
    case True
    then obtain x where x: "x \<in> set (play_calls d)" "?k x" by (auto simp: list_ex_iff)
    then have fx: "?f x = (gid, pid, s)" by (simp add: kf)
    have "filter (\<lambda>c. ?f c = ?f x) (play_calls d) = [x]"
      using distinct_key_filter [of ?f "play_calls d" x] uniq x(1)
      by (simp add: unique_play_call_seq_def)
    then have one: "filter ?k (play_calls d) = [x]" unfolding kf fx .
    have "filter ?k (map h (play_calls d)) = map h (filter ?k (play_calls d))"
      by (simp add: filter_map comp_def kh)
    with one x(2) True have "filter ?k (play_calls (upsert_play_call n gid pid s cols d))
        = [cols x]"
      unfolding up by (simp add: h_def)
    then show ?thesis ..
  next
    case False
    then have "filter ?k (play_calls d) = []" by (auto simp: list_ex_iff filter_empty_conv)
    moreover have "?k (cols (default_call n gid pid s))" unfolding kf by (rule k0)
    ultimately have "filter ?k (play_calls (upsert_play_call n gid pid s cols d))
        = [cols (default_call n gid pid s)]"
      using False unfolding up by simp
    then show ?thesis ..
  qed
qed

text \<open>
  What \<^verbatim>\<open>submitPlayCallAction\<close> does when its guards pass, and that it changes
  nothing otherwise.
\<close>

lemma submitPlayCallAction_accepted:
  assumes "game_by_id d gid = Some g" and "phase g = ''drive''"
    and "play_subphase g = Some ''play_call'' \<or> play_subphase g = Some ''question''"
    and "player_in_game d pid gid = Some p"
    and "side_p p = (if role = Offense then offense_side g else defense_side g)"
  shows "play_calls (snd (submitPlayCallAction d n gid pid role pc df)) =
           play_calls (upsert_play_call n gid pid (currentSeq g)
             (\<lambda>c. c\<lparr>side_c := side_p p, role_c := Some role, play_call := Some pc,
                     difficulty := Some df\<rparr>) d)"
    and "game_by_id (snd (submitPlayCallAction d n gid pid role pc df)) gid =
           Some (g\<lparr>play_subphase := Some
             (if list_ex (\<lambda>c. role_c c = Some Offense)
                   (calls_for (snd (submitPlayCallAction d n gid pid role pc df)) gid
                      (currentSeq g))
                 \<and> list_ex (\<lambda>c. role_c c = Some Defense)
                   (calls_for (snd (submitPlayCallAction d n gid pid role pc df)) gid
                      (currentSeq g))
              then ''question'' else ''play_call'')\<rparr>)"
    and "players (snd (submitPlayCallAction d n gid pid role pc df)) = players d"
    and "\<exists>u. fst (submitPlayCallAction d n gid pid role pc df) = Success None u"
  using assms
  by (auto simp: submitPlayCallAction_def Let_def game_by_id_update calls_for_def)

lemma submitPlayCallAction_rejected:
  assumes "\<not> (\<exists>g p. game_by_id d gid = Some g \<and> phase g = ''drive''
              \<and> (play_subphase g = Some ''play_call'' \<or> play_subphase g = Some ''question'')
              \<and> player_in_game d pid gid = Some p
              \<and> side_p p = (if role = Offense then offense_side g else defense_side g))"
  shows "\<exists>e. submitPlayCallAction d n gid pid role pc df = (Failure e, d)"
  using assms
  by (auto simp: submitPlayCallAction_def split: option.split)

text \<open>
  C5. Submitting a play call is idempotent on \<^verbatim>\<open>play_calls\<close>: for a fixed game,
  player and role, \<^verbatim>\<open>submitPlayCallAction\<close> run a second time with the same play call
  and difficulty leaves the table as the first run left it. When the first run
  succeeds on a table that satisfies \<^verbatim>\<open>unique_play_call_seq\<close>, the table then holds
  exactly one row with the key (game, player, current sequence), and that row holds
  the call and the difficulty.
\<close>

theorem submitPlayCallAction_idempotent:
  "play_calls (snd (submitPlayCallAction
       (snd (submitPlayCallAction d newId gameId playerId role playCall diff))
       newId' gameId playerId role playCall diff))
     = play_calls (snd (submitPlayCallAction d newId gameId playerId role playCall diff))
   \<and> ((\<exists>m u. fst (submitPlayCallAction d newId gameId playerId role playCall diff)
               = Success m u)
        \<and> unique_play_call_seq (play_calls d) \<and> game_by_id d gameId = Some g \<longrightarrow>
       (\<exists>c. filter (same_key gameId playerId (currentSeq g))
               (play_calls (snd (submitPlayCallAction d newId gameId playerId role playCall
                  diff))) = [c]
            \<and> play_call c = Some playCall \<and> difficulty c = Some diff))"
proof -
  let ?run = "\<lambda>e n. submitPlayCallAction e n gameId playerId role playCall diff"
  let ?ok = "\<lambda>e g p. game_by_id e gameId = Some g \<and> phase g = ''drive''
              \<and> (play_subphase g = Some ''play_call'' \<or> play_subphase g = Some ''question'')
              \<and> player_in_game e playerId gameId = Some p
              \<and> side_p p = (if role = Offense then offense_side g else defense_side g)"
  define cols where "cols = (\<lambda>(p::player) (c::play_call). c\<lparr>side_c := side_p p, role_c := Some role,
       play_call := Some playCall, difficulty := Some diff\<rparr>)"
  have twice: "play_calls (snd (?run (snd (?run d newId)) newId'))
                 = play_calls (snd (?run d newId))"
  proof (cases "\<exists>g p. ?ok d g p")
    case True
    then obtain g0 p where g0: "game_by_id d gameId = Some g0" and ph: "phase g0 = ''drive''"
      and sub: "play_subphase g0 = Some ''play_call'' \<or> play_subphase g0 = Some ''question''"
      and p: "player_in_game d playerId gameId = Some p"
      and sd: "side_p p = (if role = Offense then offense_side g0 else defense_side g0)"
      by blast
    let ?d1 = "snd (?run d newId)"
    note acc = submitPlayCallAction_accepted [OF g0 ph sub p sd, of newId playCall diff]
    have calls1: "play_calls ?d1 =
        play_calls (upsert_play_call newId gameId playerId (currentSeq g0) (cols p) d)"
      unfolding cols_def by (rule acc(1))
    define sp where "sp =
        (if list_ex (\<lambda>c. role_c c = Some Offense) (calls_for ?d1 gameId (currentSeq g0))
            \<and> list_ex (\<lambda>c. role_c c = Some Defense) (calls_for ?d1 gameId (currentSeq g0))
         then ''question'' else ''play_call'')"
    have sp: "sp = ''play_call'' \<or> sp = ''question''" by (simp add: sp_def)
    have g1: "game_by_id ?d1 gameId = Some (g0\<lparr>play_subphase := Some sp\<rparr>)"
      unfolding sp_def by (rule acc(2))
    let ?g1 = "g0\<lparr>play_subphase := Some sp\<rparr>"
    have p1: "player_in_game ?d1 playerId gameId = Some p"
      using p acc(3) by (simp add: player_in_game_def)
    have ph1: "phase ?g1 = ''drive''" using ph by simp
    have sub1: "play_subphase ?g1 = Some ''play_call'' \<or> play_subphase ?g1 = Some ''question''"
      using sp by auto
    have sd1: "side_p p = (if role = Offense then offense_side ?g1 else defense_side ?g1)"
      using sd by simp
    have seq1: "currentSeq ?g1 = currentSeq g0"
      by (simp add: currentSeq_def)
    have "play_calls (snd (?run ?d1 newId')) =
        play_calls (upsert_play_call newId' gameId playerId (currentSeq ?g1) (cols p) ?d1)"
      unfolding cols_def
      by (rule submitPlayCallAction_accepted(1) [OF g1 ph1 sub1 p1 sd1])
    also have "\<dots> = play_calls ?d1"
      unfolding seq1
      by (rule upsert_play_call_twice [OF _ _ calls1])
         (simp_all add: cols_def same_key_def)
    finally show ?thesis .
  next
    case False
    then obtain e where "?run d newId = (Failure e, d)"
      using submitPlayCallAction_rejected [of d gameId playerId role newId playCall diff]
      by blast
    moreover from False obtain e' where "?run d newId' = (Failure e', d)"
      using submitPlayCallAction_rejected [of d gameId playerId role newId' playCall diff]
      by blast
    ultimately show ?thesis by simp
  qed
  have one: "\<exists>c. filter (same_key gameId playerId (currentSeq g)) (play_calls (snd (?run d newId)))
                 = [c] \<and> play_call c = Some playCall \<and> difficulty c = Some diff"
    if succ: "\<exists>m u. fst (?run d newId) = Success m u"
      and uniq: "unique_play_call_seq (play_calls d)"
      and g: "game_by_id d gameId = Some g"
  proof -
    have "\<exists>g p. ?ok d g p"
    proof (rule ccontr)
      assume "\<not> (\<exists>g p. ?ok d g p)"
      then obtain e where "?run d newId = (Failure e, d)"
        using submitPlayCallAction_rejected [of d gameId playerId role newId playCall diff]
        by blast
      with succ show False by simp
    qed
    then obtain p where ph: "phase g = ''drive''"
      and sub: "play_subphase g = Some ''play_call'' \<or> play_subphase g = Some ''question''"
      and p: "player_in_game d playerId gameId = Some p"
      and sd: "side_p p = (if role = Offense then offense_side g else defense_side g)"
      using g by auto
    have calls1: "play_calls (snd (?run d newId)) =
        play_calls (upsert_play_call newId gameId playerId (currentSeq g) (cols p) d)"
      unfolding cols_def by (rule submitPlayCallAction_accepted(1) [OF g ph sub p sd])
    obtain c where "filter (same_key gameId playerId (currentSeq g))
        (play_calls (upsert_play_call newId gameId playerId (currentSeq g) (cols p) d))
        = [cols p c]"
      using upsert_play_call_unique(2)
              [OF uniq, where cols = "cols p" and n = newId and gid = gameId
                 and pid = playerId and s = "currentSeq g"]
      by (auto simp: cols_def)
    then show ?thesis unfolding calls1 by (simp add: cols_def)
  qed
  from twice one show ?thesis by blast
qed

text \<open>
  The home player calls a run twice at the start of the example play: the second call
  leaves the one row of the first.
\<close>

theorem submitPlayCallAction_idempotent_witness:
  "(\<exists>u. fst (submitPlayCallAction (db_of (game0\<lparr>play_subphase := Some ''play_call''\<rparr>) [])
            30 7 11 Offense ''Run'' ''easy'') = Success None u)
   \<and> unique_play_call_seq (play_calls (db_of (game0\<lparr>play_subphase := Some ''play_call''\<rparr>) []))
   \<and> play_calls (snd (submitPlayCallAction
         (db_of (game0\<lparr>play_subphase := Some ''play_call''\<rparr>) []) 30 7 11
         Offense ''Run'' ''easy''))
     = [\<lparr>id_c = 30, game_id_c = 7, player_id_c = 11, side_c = Some Home,
         role_c = Some Offense, play_call = Some ''Run'', difficulty = Some ''easy'',
         seq_c = 1, answer = None, roll = None, ready_after_roll = False\<rparr>]
   \<and> play_calls (snd (submitPlayCallAction
         (snd (submitPlayCallAction (db_of (game0\<lparr>play_subphase := Some ''play_call''\<rparr>) [])
            30 7 11 Offense ''Run'' ''easy''))
         31 7 11 Offense ''Run'' ''easy''))
     = [\<lparr>id_c = 30, game_id_c = 7, player_id_c = 11, side_c = Some Home,
         role_c = Some Offense, play_call = Some ''Run'', difficulty = Some ''easy'',
         seq_c = 1, answer = None, roll = None, ready_after_roll = False\<rparr>]"
proof -
  let ?g = "game0\<lparr>play_subphase := Some ''play_call''\<rparr>"
  let ?d = "db_of ?g []"
  have id: "id_g ?g = 7" by (simp add: game0_def)
  have g: "game_by_id ?d 7 = Some ?g" by (rule example_game_of [OF id])
  have ph: "phase ?g = ''drive''" by (simp add: game0_def)
  have sp: "play_subphase ?g = Some ''play_call'' \<or> play_subphase ?g = Some ''question''"
    by simp
  have p: "player_in_game ?d 11 7 = Some home_player" by (rule example_players)
  have sd: "side_p home_player = (if Offense = Offense then offense_side ?g else defense_side ?g)"
    by (simp add: home_player_def game0_def)
  have s: "currentSeq ?g = 1" by (simp add: currentSeq_def game0_def)
  have calls: "play_calls ?d = []" by (simp add: db_of_def)
  have first: "play_calls (snd (submitPlayCallAction ?d 30 7 11 Offense ''Run'' ''easy'')) =
      [\<lparr>id_c = 30, game_id_c = 7, player_id_c = 11, side_c = Some Home,
        role_c = Some Offense, play_call = Some ''Run'', difficulty = Some ''easy'',
        seq_c = 1, answer = None, roll = None, ready_after_roll = False\<rparr>]"
    unfolding submitPlayCallAction_accepted(1) [OF g ph sp p sd] s
    by (simp add: upsert_play_call_def calls default_call_def home_player_def)
  have succ: "\<exists>u. fst (submitPlayCallAction ?d 30 7 11 Offense ''Run'' ''easy'') = Success None u"
    by (rule submitPlayCallAction_accepted(4) [OF g ph sp p sd])
  show ?thesis
    using submitPlayCallAction_idempotent [of ?d 30 7 11 Offense "''Run''" "''easy''" 31 ?g]
      succ
    by (simp add: first unique_play_call_seq_def calls)
qed

section \<open>The stages of a play advance only with both sides\<close>






lemma role_stageColumns [simp]:
  "role_c (stageColumns p t oPlay oDiff dPlay a rl rdy c) = Some t"
  by (simp add: stageColumns_def)










lemma stage_update:
  "game_by_id d gid = Some g \<Longrightarrow>
   games d' = games (update_game gid (\<lambda>row. row\<lparr>play_subphase := sp\<rparr>) d) \<Longrightarrow>
   stage d' gid = Some (phase g, sp)"
proof -
  assume g: "game_by_id d gid = Some g"
    and "games d' = games (update_game gid (\<lambda>row. row\<lparr>play_subphase := sp\<rparr>) d)"
  then have "game_by_id d' gid = game_by_id (update_game gid (\<lambda>row. row\<lparr>play_subphase := sp\<rparr>) d) gid"
    by (simp add: game_by_id_def)
  with g show ?thesis by (simp add: stage_def game_by_id_update)
qed


















section \<open>Phase changes of the actions\<close>


lemma stage_more [simp]:
  "stage (logGameEvent gid' t p d) gid = stage d gid"
  "stage (d\<lparr>play_calls := cs\<rparr>) gid = stage d gid"
  "stage (d\<lparr>players := ps\<rparr>) gid = stage d gid"
  by (simp_all add: stage_def)


















end
